theory Spec2Isabelle
  imports Complex_Main "HOL-Library.Word"
begin

section \<open>Data model of the file source channel\<close>

text \<open>
  The settings snapshot of the channel, with the fields that
  \<^verbatim>\<open>filesource.cpp\<close> reads and writes. The selector fields are compared with an
  \<^verbatim>\<open>unsigned int\<close> in \<open>validateFilterChainHash\<close> and filled from
  \<^verbatim>\<open>qint32\<close> getters, so the integer fields are 32-bit words; the gain is a C++
  \<^verbatim>\<open>int\<close> that is only compared and handed to \<^verbatim>\<open>CalcDb::powerFromdB\<close>.
\<close>

record FileSourceSettings =
  m_fileName :: string
  m_loop :: bool
  m_log2Interp :: "32 word"
  m_filterChainHash :: "32 word"
  m_gainDB :: int
  m_rgbColor :: "32 word"
  m_title :: string
  m_useReverseAPI :: bool
  m_reverseAPIAddress :: string
  m_reverseAPIPort :: "32 word"
  m_reverseAPIDeviceIndex :: "32 word"
  m_reverseAPIChannelIndex :: "32 word"

text \<open>
  The messages that travel through the queues of the channel: the kinds defined with
  \<^verbatim>\<open>MESSAGE_CLASS_DEFINITION\<close> in \<^verbatim>\<open>filesource.cpp\<close>, the device
  notification, the kinds pushed to the baseband source and to the GUI, and every other
  kind of the application (\<open>OtherMessage\<close>, tagged by a number). A sample rate is a
  32-bit integer and a center frequency a 64-bit one; they are kept as their bits, which
  a conversion between the signed and the unsigned type of the same width leaves alone.
\<close>

datatype Message =
    DSPSignalNotification (getSampleRate: "32 word") (getCenterFrequency: "64 word")
  | MsgConfigureFileSource (getSettings: FileSourceSettings) (getForce: bool)
  | MsgConfigureFileSourceName (getFileName: string)
  | MsgConfigureFileSourceWork (isWorking: bool)
  | MsgConfigureFileSourceSeek (getMillis: int)
  | MsgConfigureFileSourceStreamTiming
  | MsgSampleRateNotification "32 word"
  | MsgReportFileSourceAcquisition bool
  | MsgReportFileSourceStreamTiming "64 word"
  | MsgConfigureFileSourceBaseband FileSourceSettings bool
  | BasebandMsgConfigureFileSourceName string
  | BasebandMsgConfigureFileSourceWork bool
  | BasebandMsgConfigureFileSourceSeek int
  | OtherMessage nat

text \<open>The \<^verbatim>\<open>match\<close> discriminators: each tests the concrete kind of a message.\<close>

definition DSPSignalNotification_match :: "Message \<Rightarrow> bool" where
  "DSPSignalNotification_match cmd =
     (case cmd of DSPSignalNotification r f \<Rightarrow> True | _ \<Rightarrow> False)"

definition MsgConfigureFileSource_match :: "Message \<Rightarrow> bool" where
  "MsgConfigureFileSource_match cmd =
     (case cmd of MsgConfigureFileSource s f \<Rightarrow> True | _ \<Rightarrow> False)"

definition MsgConfigureFileSourceName_match :: "Message \<Rightarrow> bool" where
  "MsgConfigureFileSourceName_match cmd =
     (case cmd of MsgConfigureFileSourceName n \<Rightarrow> True | _ \<Rightarrow> False)"

definition MsgConfigureFileSourceWork_match :: "Message \<Rightarrow> bool" where
  "MsgConfigureFileSourceWork_match cmd =
     (case cmd of MsgConfigureFileSourceWork w \<Rightarrow> True | _ \<Rightarrow> False)"

definition MsgConfigureFileSourceSeek_match :: "Message \<Rightarrow> bool" where
  "MsgConfigureFileSourceSeek_match cmd =
     (case cmd of MsgConfigureFileSourceSeek m \<Rightarrow> True | _ \<Rightarrow> False)"

definition MsgConfigureFileSourceStreamTiming_match :: "Message \<Rightarrow> bool" where
  "MsgConfigureFileSourceStreamTiming_match cmd =
     (case cmd of MsgConfigureFileSourceStreamTiming \<Rightarrow> True | _ \<Rightarrow> False)"

text \<open>
  The baseband source, as far as the channel uses it: its input queue and the stream
  figures read by the report.
\<close>

record FileSourceBaseband =
  inputMessageQueue :: "Message list"
  samplesCount :: "64 word"
  fileSampleRate :: "32 word"
  startingTimeStamp :: "64 word"
  recordLength :: "64 word"
  fileSampleSize :: "32 word"

text \<open>
  The body of a reverse API request: a field is present when
  \<open>webapiReverseSendSettings\<close> has set it.
\<close>

record SWGChannelSettings =
  direction :: int
  originatorChannelIndex :: int
  originatorDeviceSetIndex :: int
  channelType :: string
  swgLog2Interp :: "32 word option"
  swgFilterChainHash :: "32 word option"
  swgGainDb :: "int option"
  swgRgbColor :: "32 word option"
  swgTitle :: "string option"

record NetworkRequest =
  urlAddress :: string
  urlPort :: "32 word"
  urlDeviceIndex :: "32 word"
  urlChannelIndex :: "32 word"
  verb :: string
  body :: SWGChannelSettings

text \<open>
  The state of a \<open>FileSource\<close>. A queue is the list of its pending messages, oldest
  first; the GUI queue is a pointer that may be null. The members are declared in
  \<^verbatim>\<open>filesource.h\<close>, which is not among the sources: \<open>m_basebandSampleRate\<close> is
  kept as the 32 bits of the rate it is assigned, and the type of \<open>m_frequencyOffset\<close>
  is the type parameter \<open>'o\<close>. \<open>m_centerFrequency\<close> records the argument of
  \<open>setCenterFrequency\<close> and \<open>m_networkRequests\<close> the requests handed to the network
  manager.
\<close>

record 'o FileSource =
  m_settings :: FileSourceSettings
  m_frequencyOffset :: 'o
  m_basebandSampleRate :: "32 word"
  m_linearGain :: real
  m_centerFrequency :: "64 word"
  m_inputMessageQueue :: "Message list"
  m_guiMessageQueue :: "Message list option"
  m_basebandSource :: FileSourceBaseband
  m_networkRequests :: "NetworkRequest list"
  m_indexInDeviceSet :: int
  m_deviceSetIndex :: int

definition push :: "Message \<Rightarrow> Message list \<Rightarrow> Message list" where
  "push msg queue = queue @ [msg]"

text \<open>
  \<open>getMessageQueueToGUI\<close> is the accessor of the channel interface for the GUI queue;
  it reads \<open>m_guiMessageQueue\<close>.
\<close>

definition getMessageQueueToGUI :: "'o FileSource \<Rightarrow> Message list option" where
  "getMessageQueueToGUI st = m_guiMessageQueue st"

definition pushToBaseband :: "Message \<Rightarrow> 'o FileSource \<Rightarrow> 'o FileSource" where
  "pushToBaseband msg st =
     st\<lparr>m_basebandSource :=
          (m_basebandSource st)\<lparr>inputMessageQueue :=
             push msg (inputMessageQueue (m_basebandSource st))\<rparr>\<rparr>"

section \<open>The filter chain selector\<close>

text \<open>
  The loop of \<open>validateFilterChainHash\<close>, with its 32-bit counter and accumulator:
  \<^verbatim>\<open>for (unsigned int i = 0; i < settings.m_log2Interp; i++) { s *= 3; }\<close>.
\<close>

function pow3_loop :: "32 word \<Rightarrow> 32 word \<Rightarrow> 32 word \<Rightarrow> 32 word" where
  "pow3_loop i n s = (if i < n then pow3_loop (i + 1) n (s * 3) else s)"
  by pat_completeness auto
termination
proof (relation "measure (\<lambda>(i, n, s). unat n - unat i)")
  show "wf (measure (\<lambda>(i, n, s). unat n - unat i))" by simp
next
  fix i n s :: "32 word"
  assume lt: "i < n"
  then have below: "unat i < unat n" by (simp add: word_less_nat_alt)
  moreover have "unat n < 2 ^ 32" using unsigned_less [of n] by simp
  ultimately have "unat i + unat (1 :: 32 word) < 2 ^ LENGTH(32)" by simp
  then have "unat (i + 1) = unat i + unat (1 :: 32 word)" by (simp only: unat_add_lem)
  with below
  show "((i + 1, n, s * 3), (i, n, s)) \<in> measure (\<lambda>(i, n, s). unat n - unat i)"
    by simp
qed

declare pow3_loop.simps [simp del]

definition validateFilterChainHash :: "FileSourceSettings \<Rightarrow> FileSourceSettings" where
  "validateFilterChainHash settings =
     (let s = pow3_loop 0 (m_log2Interp settings) 1
      in settings\<lparr>m_filterChainHash :=
           (if m_filterChainHash settings \<ge> s then s - 1 else m_filterChainHash settings)\<rparr>)"

text \<open>
  The settings part of a REST request, read through the getters of the generated
  class: the integers are \<^verbatim>\<open>qint32\<close>, the texts are the strings the pointers
  lead to.
\<close>

record SWGFileSourceSettings =
  getLog2Interp :: "32 word"
  getFilterChainHash :: "32 word"
  getGainDb :: int
  getRgbColor :: "32 word"
  getTitle :: string
  getUseReverseApi :: "32 word"
  getReverseApiAddress :: string
  getReverseApiPort :: "32 word"
  getReverseApiDeviceIndex :: "32 word"
  getReverseApiChannelIndex :: "32 word"

definition contains :: "string list \<Rightarrow> string \<Rightarrow> bool" where
  "contains keys k = (k \<in> set keys)"

definition webapiUpdateChannelSettings ::
  "FileSourceSettings \<Rightarrow> string list \<Rightarrow> SWGFileSourceSettings \<Rightarrow> FileSourceSettings" where
  "webapiUpdateChannelSettings settings0 channelSettingsKeys response =
     (let settings = settings0;
          settings = (if contains channelSettingsKeys ''log2Interp''
                      then settings\<lparr>m_log2Interp := getLog2Interp response\<rparr> else settings);
          settings = (if contains channelSettingsKeys ''filterChainHash''
                      then validateFilterChainHash
                             (settings\<lparr>m_filterChainHash := getFilterChainHash response\<rparr>)
                      else settings);
          settings = (if contains channelSettingsKeys ''rgbColor''
                      then settings\<lparr>m_rgbColor := getRgbColor response\<rparr> else settings);
          settings = (if contains channelSettingsKeys ''title''
                      then settings\<lparr>m_title := getTitle response\<rparr> else settings);
          settings = (if contains channelSettingsKeys ''gainDB''
                      then settings\<lparr>m_gainDB := getGainDb response\<rparr> else settings);
          settings = (if contains channelSettingsKeys ''useReverseAPI''
                      then settings\<lparr>m_useReverseAPI := (getUseReverseApi response \<noteq> 0)\<rparr>
                      else settings);
          settings = (if contains channelSettingsKeys ''reverseAPIAddress''
                      then settings\<lparr>m_reverseAPIAddress := getReverseApiAddress response\<rparr>
                      else settings);
          settings = (if contains channelSettingsKeys ''reverseAPIPort''
                      then settings\<lparr>m_reverseAPIPort := getReverseApiPort response\<rparr>
                      else settings);
          settings = (if contains channelSettingsKeys ''reverseAPIDeviceIndex''
                      then settings\<lparr>m_reverseAPIDeviceIndex := getReverseApiDeviceIndex response\<rparr>
                      else settings);
          settings = (if contains channelSettingsKeys ''reverseAPIChannelIndex''
                      then settings\<lparr>m_reverseAPIChannelIndex := getReverseApiChannelIndex response\<rparr>
                      else settings)
      in settings)"

section \<open>The half-band filter chain offset\<close>

text \<open>
  Modelled from the spec: the digits of the selector code of
  \<^verbatim>\<open>HBFilterChainConverter::getShiftFactor\<close>, which is declared in
  \<^verbatim>\<open>dsp/hbfilterchainconverter.h\<close> and is not among the sources. The selector code
  is read as a base 3 number of \<open>stageCount\<close> digits, least significant digit first.
\<close>

fun base3_digits :: "nat \<Rightarrow> nat \<Rightarrow> nat list" where
  "base3_digits 0 selectorCode = []"
| "base3_digits (Suc stageCount) selectorCode =
     (selectorCode mod 3) # base3_digits stageCount (selectorCode div 3)"

text \<open>
  Modelled from the spec: the shift of one stage of the cascade, a quarter of the output
  rate of the stage. A digit 0, 1 or 2 means no shift, a shift up or a shift down.
\<close>

definition stageShift :: "nat \<Rightarrow> real" where
  "stageShift d = (if d = 1 then 1 / 4 else if d = 2 then - (1 / 4) else 0)"

text \<open>
  Modelled from the spec: the shifts of the stages added up. The convention fixed here:
  the first digit is the stage closest to the original signal, which contributes its
  full quarter, and the contribution halves at each following stage.
\<close>

fun cascadeShift :: "nat list \<Rightarrow> real" where
  "cascadeShift [] = 0"
| "cascadeShift (d # ds) = stageShift d + cascadeShift ds / 2"

text \<open>
  Modelled from the spec: \<^verbatim>\<open>HBFilterChainConverter::getShiftFactor\<close>, the pure
  function from the stage count and the selector code to the cumulated shift, as a
  fraction of the final rate. The factor is kept as an exact number: every value is a
  dyadic fraction.
\<close>

definition getShiftFactor :: "nat \<Rightarrow> nat \<Rightarrow> real" where
  "getShiftFactor stageCount selectorCode =
     cascadeShift (base3_digits stageCount selectorCode)"

text \<open>
  \<open>calculateFrequencyOffset\<close>, from the source:
  \<^verbatim>\<open>m_frequencyOffset = m_basebandSampleRate * shiftFactor\<close>. What the two members
  are is declared in \<^verbatim>\<open>filesource.h\<close>, which is not among the sources, so the two
  conversions of the assignment are parameters: \<open>rateValue\<close> is the number that the
  32 bits of the rate stand for when the member is read (as a signed or as an unsigned
  integer), and \<open>toOffset\<close> is what the assignment makes of the product (its rounding
  to a \<^verbatim>\<open>double\<close> and the conversion to the type of \<open>m_frequencyOffset\<close>, which
  drops the fraction when that type is an integer).
\<close>

definition calculateFrequencyOffset ::
  "(32 word \<Rightarrow> real) \<Rightarrow> (real \<Rightarrow> 'o) \<Rightarrow> 'o FileSource \<Rightarrow> 'o FileSource" where
  "calculateFrequencyOffset rateValue toOffset st =
     (let shiftFactor = getShiftFactor (unat (m_log2Interp (m_settings st)))
                          (unat (m_filterChainHash (m_settings st)))
      in st\<lparr>m_frequencyOffset := toOffset (rateValue (m_basebandSampleRate st) * shiftFactor)\<rparr>)"

section \<open>Applying settings\<close>

definition webapiReverseSendSettings ::
  "string list \<Rightarrow> FileSourceSettings \<Rightarrow> bool \<Rightarrow> 'o FileSource \<Rightarrow> 'o FileSource" where
  "webapiReverseSendSettings channelSettingsKeys settings force st =
     (let swgChannelSettings =
            \<lparr>direction = 1,
             originatorChannelIndex = m_indexInDeviceSet st,
             originatorDeviceSetIndex = m_deviceSetIndex st,
             channelType = ''FileSource'',
             swgLog2Interp = (if contains channelSettingsKeys ''log2Interp'' \<or> force
                              then Some (m_log2Interp settings) else None),
             swgFilterChainHash = (if contains channelSettingsKeys ''filterChainHash'' \<or> force
                                   then Some (m_filterChainHash settings) else None),
             swgGainDb = (if contains channelSettingsKeys ''gainDB'' \<or> force
                          then Some (m_gainDB settings) else None),
             swgRgbColor = (if contains channelSettingsKeys ''rgbColor'' \<or> force
                            then Some (m_rgbColor settings) else None),
             swgTitle = (if contains channelSettingsKeys ''title'' \<or> force
                         then Some (m_title settings) else None)\<rparr>;
          request =
            \<lparr>urlAddress = m_reverseAPIAddress settings,
             urlPort = m_reverseAPIPort settings,
             urlDeviceIndex = m_reverseAPIDeviceIndex settings,
             urlChannelIndex = m_reverseAPIChannelIndex settings,
             verb = ''PATCH'',
             body = swgChannelSettings\<rparr>
      in st\<lparr>m_networkRequests := m_networkRequests st @ [request]\<rparr>)"

text \<open>
  The key list that \<open>applySettings\<close> builds in its local \<open>reverseAPIKeys\<close>, from the
  stored settings, the new ones and the force flag.
\<close>

definition reverseAPIKeys :: "FileSourceSettings \<Rightarrow> FileSourceSettings \<Rightarrow> bool \<Rightarrow> string list" where
  "reverseAPIKeys stored settings force =
     (let keys = [];
          keys = (if m_loop stored \<noteq> m_loop settings \<or> force
                  then keys @ [''loop''] else keys);
          keys = (if m_fileName stored \<noteq> m_fileName settings \<or> force
                  then keys @ [''fileName''] else keys);
          keys = (if m_gainDB stored \<noteq> m_gainDB settings \<or> force
                  then keys @ [''gainDB''] else keys)
      in keys)"

text \<open>
  \<open>applySettings\<close>. \<^verbatim>\<open>CalcDb::powerFromdB\<close> (\<^verbatim>\<open>util/db.h\<close>, not among the
  sources) is the parameter \<open>powerFromdB\<close>.
\<close>

definition applySettings ::
  "(int \<Rightarrow> real) \<Rightarrow> FileSourceSettings \<Rightarrow> bool \<Rightarrow> 'o FileSource \<Rightarrow> 'o FileSource" where
  "applySettings powerFromdB settings force st0 =
     (let keys = reverseAPIKeys (m_settings st0) settings force;
          st = (if m_gainDB (m_settings st0) \<noteq> m_gainDB settings \<or> force
                then st0\<lparr>m_linearGain := powerFromdB (m_gainDB settings)\<rparr> else st0);
          st = pushToBaseband (MsgConfigureFileSourceBaseband settings force) st;
          st = (if m_useReverseAPI settings
                then (let fullUpdate =
                            ((m_useReverseAPI (m_settings st) \<noteq> m_useReverseAPI settings)
                               \<and> m_useReverseAPI settings)
                            \<or> (m_reverseAPIAddress (m_settings st) \<noteq> m_reverseAPIAddress settings)
                            \<or> (m_reverseAPIPort (m_settings st) \<noteq> m_reverseAPIPort settings)
                            \<or> (m_reverseAPIDeviceIndex (m_settings st)
                                  \<noteq> m_reverseAPIDeviceIndex settings)
                            \<or> (m_reverseAPIChannelIndex (m_settings st)
                                  \<noteq> m_reverseAPIChannelIndex settings)
                      in webapiReverseSendSettings keys settings (fullUpdate \<or> force) st)
                else st)
      in st\<lparr>m_settings := settings\<rparr>)"

section \<open>Message handling\<close>

text \<open>
  \<open>handleMessage\<close>. Its first three arguments are the parameters of \<open>applySettings\<close>
  and of \<open>calculateFrequencyOffset\<close>.
\<close>

definition handleMessage ::
  "(int \<Rightarrow> real) \<Rightarrow> (32 word \<Rightarrow> real) \<Rightarrow> (real \<Rightarrow> 'o)
   \<Rightarrow> 'o FileSource \<Rightarrow> Message \<Rightarrow> bool \<times> 'o FileSource" where
  "handleMessage powerFromdB rateValue toOffset st0 cmd =
     (if DSPSignalNotification_match cmd then
        (let st = st0\<lparr>m_basebandSampleRate := getSampleRate cmd\<rparr>;
             st = calculateFrequencyOffset rateValue toOffset st;
             st = st\<lparr>m_centerFrequency := getCenterFrequency cmd\<rparr>;
             sig = DSPSignalNotification (getSampleRate cmd) (getCenterFrequency cmd);
             st = pushToBaseband sig st;
             st = (case m_guiMessageQueue st of
                     None \<Rightarrow> st
                   | Some queue \<Rightarrow>
                       st\<lparr>m_guiMessageQueue :=
                            Some (push (MsgSampleRateNotification (getSampleRate cmd)) queue)\<rparr>)
         in (True, st))
      else if MsgConfigureFileSource_match cmd then
        (True, applySettings powerFromdB (getSettings cmd) (getForce cmd) st0)
      else if MsgConfigureFileSourceName_match cmd then
        (True, pushToBaseband (BasebandMsgConfigureFileSourceName (getFileName cmd)) st0)
      else if MsgConfigureFileSourceWork_match cmd then
        (True, pushToBaseband (BasebandMsgConfigureFileSourceWork (isWorking cmd)) st0)
      else if MsgConfigureFileSourceSeek_match cmd then
        (True, pushToBaseband (BasebandMsgConfigureFileSourceSeek (getMillis cmd)) st0)
      else if MsgConfigureFileSourceStreamTiming_match cmd then
        (True,
         (case getMessageQueueToGUI st0 of
            None \<Rightarrow> st0
          | Some queue \<Rightarrow>
              st0\<lparr>m_guiMessageQueue :=
                    Some (push (MsgReportFileSourceStreamTiming
                                  (samplesCount (m_basebandSource st0))) queue)\<rparr>))
      else (False, st0))"

section \<open>Restoring settings\<close>

text \<open>
  \<open>deserialize\<close>. The two operations of the settings type that it calls,
  \<^verbatim>\<open>FileSourceSettings::deserialize\<close> (which updates the settings in place and tells
  whether it succeeded) and \<^verbatim>\<open>FileSourceSettings::resetToDefaults\<close>, are not among
  the sources: they are the parameters \<open>settingsDeserialize\<close> and \<open>resetToDefaults\<close>.
\<close>

definition deserialize ::
  "(8 word list \<Rightarrow> FileSourceSettings \<Rightarrow> bool \<times> FileSourceSettings)
   \<Rightarrow> (FileSourceSettings \<Rightarrow> FileSourceSettings)
   \<Rightarrow> 8 word list \<Rightarrow> 'o FileSource \<Rightarrow> bool \<times> 'o FileSource" where
  "deserialize settingsDeserialize resetToDefaults data st0 =
     (let (ok, parsed) = settingsDeserialize data (m_settings st0);
          st = st0\<lparr>m_settings := parsed\<rparr>
      in if ok then
           (let msg = MsgConfigureFileSource (m_settings st) True
            in (True, st\<lparr>m_inputMessageQueue := push msg (m_inputMessageQueue st)\<rparr>))
         else
           (let st = st\<lparr>m_settings := resetToDefaults (m_settings st)\<rparr>;
                msg = MsgConfigureFileSource (m_settings st) True
            in (False, st\<lparr>m_inputMessageQueue := push msg (m_inputMessageQueue st)\<rparr>)))"

section \<open>The channel report\<close>

text \<open>
  An integer division by zero is a fault of the program, not a value: the division of
  the model returns the fault instead of a quotient.
\<close>

datatype fault = DivisionByZero

definition checked_div :: "64 word \<Rightarrow> 64 word \<Rightarrow> fault + 64 word" where
  "checked_div a b = (if b = 0 then Inl DivisionByZero else Inr (a div b))"

text \<open>
  The elapsed time of \<open>webapiFormatChannelReport\<close>: the locals \<open>t_sec\<close> and
  \<open>t_msec\<close> (\<^verbatim>\<open>qint64\<close>) from the sample count (\<^verbatim>\<open>quint64\<close>) and the file
  sample rate (\<^verbatim>\<open>uint32_t\<close>). All of it is 64-bit arithmetic; the conversions
  between the signed and the unsigned type keep the bits. The product
  \<^verbatim>\<open>t_sec * fileSampleRate\<close> is a signed one: it is at most the sample count, so it
  stays in range below \<open>2 ^ 63\<close> samples, and it is taken with wrap-around beyond.
\<close>

definition elapsed :: "64 word \<Rightarrow> 32 word \<Rightarrow> fault + 64 word \<times> 64 word" where
  "elapsed count rate =
     (let t_sec = 0; t_msec = 0
      in if rate > 0 then
           (case checked_div count (ucast rate) of
              Inl e \<Rightarrow> Inl e
            | Inr t_sec \<Rightarrow>
                (case checked_div ((count - (t_sec * ucast rate)) * 1000) (ucast rate) of
                   Inl e \<Rightarrow> Inl e
                 | Inr t_msec \<Rightarrow> Inr (t_sec, t_msec)))
         else Inr (t_sec, t_msec))"

text \<open>
  \<^verbatim>\<open>QTime\<close> of the Qt library, as its documentation describes it: a time of day is
  its number of milliseconds since midnight, adding seconds or milliseconds wraps around
  midnight, and both take a 32-bit \<^verbatim>\<open>int\<close>, to which a 64-bit argument is cut.
\<close>

type_synonym QTime = int

definition MSECS_PER_DAY :: int where
  "MSECS_PER_DAY = 86400000"

definition toInt :: "64 word \<Rightarrow> int" where
  "toInt w = sint (ucast w :: 32 word)"

definition addMSecs :: "QTime \<Rightarrow> int \<Rightarrow> QTime" where
  "addMSecs t ms = (t + ms) mod MSECS_PER_DAY"

definition addSecs :: "QTime \<Rightarrow> int \<Rightarrow> QTime" where
  "addSecs t s = addMSecs t ((s mod 86400) * 1000)"

definition digit :: "nat \<Rightarrow> char" where
  "digit d = ''0123456789'' ! (d mod 10)"

definition two_digits :: "nat \<Rightarrow> string" where
  "two_digits n = [digit (n div 10), digit n]"

definition three_digits :: "nat \<Rightarrow> string" where
  "three_digits n = [digit (n div 100), digit (n div 10), digit n]"

definition toString_HHmmss :: "QTime \<Rightarrow> string" where
  "toString_HHmmss t =
     (let ms = nat t
      in two_digits (ms div 3600000) @ '':'' @ two_digits (ms div 60000 mod 60) @ '':''
         @ two_digits (ms div 1000 mod 60))"

definition toString_HHmmsszzz :: "QTime \<Rightarrow> string" where
  "toString_HHmmsszzz t = toString_HHmmss t @ ''.'' @ three_digits (nat t mod 1000)"

text \<open>
  The report. The absolute time (formatted in the local time zone) and the channel power
  (a logarithm of a floating point average) are left out.
\<close>

record SWGFileSourceReport =
  elapsedTime :: string
  durationTime :: string
  fileName :: string
  reportFileSampleRate :: "32 word"
  reportFileSampleSize :: "32 word"
  sampleRate :: "32 word"

definition webapiFormatChannelReport :: "'o FileSource \<Rightarrow> fault + SWGFileSourceReport" where
  "webapiFormatChannelReport st =
     (case elapsed (samplesCount (m_basebandSource st)) (fileSampleRate (m_basebandSource st)) of
        Inl e \<Rightarrow> Inl e
      | Inr (t_sec, t_msec) \<Rightarrow>
          (let t = 0;
               t = addSecs t (toInt t_sec);
               t = addMSecs t (toInt t_msec);
               recordLength0 = 0;
               recordLength1 = addSecs recordLength0 (toInt (recordLength (m_basebandSource st)))
           in Inr \<lparr>elapsedTime = toString_HHmmsszzz t,
                    durationTime = toString_HHmmss recordLength1,
                    fileName = m_fileName (m_settings st),
                    reportFileSampleRate = fileSampleRate (m_basebandSource st),
                    reportFileSampleSize = fileSampleSize (m_basebandSource st),
                    sampleRate = m_basebandSampleRate st\<rparr>))"

section \<open>Sample values\<close>

text \<open>Concrete settings and states on which the properties below are exercised.\<close>

definition exampleSettings :: FileSourceSettings where
  "exampleSettings =
     \<lparr>m_fileName = ''test.sdriq'', m_loop = True, m_log2Interp = 2, m_filterChainHash = 5,
      m_gainDB = 0, m_rgbColor = 0, m_title = ''File source'', m_useReverseAPI = True,
      m_reverseAPIAddress = ''127.0.0.1'', m_reverseAPIPort = 8888,
      m_reverseAPIDeviceIndex = 0, m_reverseAPIChannelIndex = 0\<rparr>"

definition exampleBaseband :: FileSourceBaseband where
  "exampleBaseband =
     \<lparr>inputMessageQueue = [], samplesCount = 0, fileSampleRate = 0, startingTimeStamp = 0,
      recordLength = 0, fileSampleSize = 0\<rparr>"

text \<open>
  A choice of the two conversions of \<open>calculateFrequencyOffset\<close>: an unsigned rate, and
  an integer offset that drops the fraction of the product.
\<close>

definition exampleRateValue :: "32 word \<Rightarrow> real" where
  "exampleRateValue w = real (unat w)"

definition exampleToOffset :: "real \<Rightarrow> int" where
  "exampleToOffset x = (if x < 0 then - \<lfloor>- x\<rfloor> else \<lfloor>x\<rfloor>)"

definition exampleSource :: "int FileSource" where
  "exampleSource =
     \<lparr>m_settings = exampleSettings, m_frequencyOffset = 0, m_basebandSampleRate = 0,
      m_linearGain = 0, m_centerFrequency = 0, m_inputMessageQueue = [],
      m_guiMessageQueue = Some [], m_basebandSource = exampleBaseband,
      m_networkRequests = [], m_indexInDeviceSet = 0, m_deviceSetIndex = 0\<rparr>"

text \<open>
  Settings with 21 stages and a selector below \<open>3 ^ 21\<close>, and the REST request that
  asks for them.
\<close>

definition overflowSettings :: FileSourceSettings where
  "overflowSettings = exampleSettings\<lparr>m_log2Interp := 21, m_filterChainHash := 2000000000\<rparr>"

definition overflowResponse :: SWGFileSourceSettings where
  "overflowResponse =
     \<lparr>getLog2Interp = 21, getFilterChainHash = 2000000000, getGainDb = 0, getRgbColor = 0,
      getTitle = ''File source'', getUseReverseApi = 0, getReverseApiAddress = ''127.0.0.1'',
      getReverseApiPort = 8888, getReverseApiDeviceIndex = 0, getReverseApiChannelIndex = 0\<rparr>"

section \<open>Properties of the selector validation\<close>

lemma unat_inc_below: "unat (i + 1) = Suc (unat i)" if "i < n" for i n :: "32 word"
proof -
  have "unat i < unat n" using that by (simp add: word_less_nat_alt)
  moreover have "unat n < 2 ^ 32" using unsigned_less [of n] by simp
  ultimately have "unat i + unat (1 :: 32 word) < 2 ^ LENGTH(32)" by simp
  then have "unat (i + 1) = unat i + unat (1 :: 32 word)" by (simp only: unat_add_lem)
  then show ?thesis by simp
qed

lemma pow3_loop_eq: "pow3_loop i n s = s * 3 ^ (unat n - unat i)"
proof (induction i n s rule: pow3_loop.induct)
  case (1 i n s)
  show ?case
  proof (cases "i < n")
    case True
    then have lt: "unat i < unat n" by (simp add: word_less_nat_alt)
    have "unat n - unat i = Suc (unat n - unat (i + 1))"
      using lt unat_inc_below [OF True] by simp
    then show ?thesis
      using True "1.IH" [OF True] by (simp add: pow3_loop.simps [of i n s] mult.assoc)
  next
    case False
    then have "unat n - unat i = 0" by (simp add: word_less_nat_alt)
    then show ?thesis using False by (simp add: pow3_loop.simps [of i n s])
  qed
qed

lemma pow3_loop_start: "pow3_loop 0 n 1 = 3 ^ unat n"
  by (simp add: pow3_loop_eq)

lemma pow3_word_nonzero: "(3 ^ k :: 32 word) \<noteq> 0"
proof -
  have "odd (3 ^ k :: 32 word)" by simp
  then show ?thesis by fastforce
qed

lemma pow3_le_20: "(3::nat) ^ k < 2 ^ 32" if "k \<le> 20"
proof -
  have "(3::nat) ^ k \<le> 3 ^ 20" using that by (intro power_increasing) simp_all
  also have "(3::nat) ^ 20 < 2 ^ 32" by simp
  finally show ?thesis .
qed

lemma unat_pow3_small: "unat (3 ^ k :: 32 word) = 3 ^ k" if "k \<le> 20"
proof -
  have "(3 ^ k :: 32 word) = of_nat (3 ^ k)" by simp
  then have "unat (3 ^ k :: 32 word) = (3 ^ k) mod 2 ^ LENGTH(32)"
    by (simp only: unat_of_nat)
  with pow3_le_20 [OF that] show ?thesis by simp
qed

lemma pow3_ge_21: "(2::nat) ^ 32 < 3 ^ k" if "21 \<le> k"
proof -
  have "(2::nat) ^ 32 < 3 ^ 21" by simp
  also have "(3::nat) ^ 21 \<le> 3 ^ k" using that by (intro power_increasing) simp_all
  finally show ?thesis .
qed

lemma word_pred_less: "s - 1 < s" if "s \<noteq> 0" for s :: "32 word"
  using that by (simp add: word_less_nat_alt unat_minus_one unat_gt_0)

lemma validate_below_s:
  "m_filterChainHash (validateFilterChainHash x) < pow3_loop 0 (m_log2Interp x) 1"
  by (simp add: validateFilterChainHash_def Let_def pow3_loop_start
      word_pred_less [OF pow3_word_nonzero] not_le)

lemma validate_log2Interp: "m_log2Interp (validateFilterChainHash x) = m_log2Interp x"
  by (simp add: validateFilterChainHash_def Let_def)

text \<open>
  C10: \<open>validateFilterChainHash\<close> is idempotent: applied twice in succession it yields
  the same settings as applied once, for every settings value. What it produces is below
  the bound \<open>s\<close> that its loop computes from the unchanged stage count, so the second
  application leaves it as it is.
\<close>

theorem validateFilterChainHash_idempotent:
  "validateFilterChainHash (validateFilterChainHash x) = validateFilterChainHash x"
proof -
  let ?y = "validateFilterChainHash x"
  have "\<not> pow3_loop 0 (m_log2Interp ?y) 1 \<le> m_filterChainHash ?y"
    using validate_below_s [of x] by (simp add: validate_log2Interp)
  then have "validateFilterChainHash ?y = ?y\<lparr>m_filterChainHash := m_filterChainHash ?y\<rparr>"
    by (simp add: validateFilterChainHash_def [of ?y] Let_def)
  then show ?thesis by simp
qed

theorem validateFilterChainHash_idempotent_witness:
  "validateFilterChainHash (validateFilterChainHash exampleSettings)
     = validateFilterChainHash exampleSettings"
  by (rule validateFilterChainHash_idempotent)

text \<open>
  Up to 20 stages the accumulator of the loop holds \<open>3 ^ m_log2Interp\<close> itself, and the
  selector is clamped as intended: a selector at or above \<open>3 ^ m_log2Interp\<close> becomes
  \<open>3 ^ m_log2Interp - 1\<close>, any other one is kept.
\<close>

lemma validateFilterChainHash_small:
  assumes "unat (m_log2Interp x) \<le> 20"
  shows "unat (m_filterChainHash (validateFilterChainHash x)) =
          (if unat (m_filterChainHash x) \<ge> 3 ^ unat (m_log2Interp x)
           then 3 ^ unat (m_log2Interp x) - 1 else unat (m_filterChainHash x))"
proof -
  let ?s = "3 ^ unat (m_log2Interp x) :: 32 word"
  have us: "unat ?s = 3 ^ unat (m_log2Interp x)" by (rule unat_pow3_small [OF assms])
  have "unat (?s - 1) = unat ?s - 1" by (rule unat_minus_one [OF pow3_word_nonzero])
  then show ?thesis
    by (simp add: validateFilterChainHash_def Let_def pow3_loop_start word_le_nat_alt us)
qed

text \<open>
  For every stage count the validated selector is below \<open>3 ^ m_log2Interp\<close>: from 21
  stages on, every 32-bit selector is.
\<close>

lemma validateFilterChainHash_below:
  "unat (m_filterChainHash (validateFilterChainHash x)) < 3 ^ unat (m_log2Interp x)"
proof (cases "unat (m_log2Interp x) \<le> 20")
  case True
  have "unat (m_filterChainHash (validateFilterChainHash x)) < unat (pow3_loop 0 (m_log2Interp x) 1)"
    using validate_below_s [of x] by (simp add: word_less_nat_alt)
  then show ?thesis by (simp add: pow3_loop_start unat_pow3_small [OF True])
next
  case False
  then have "21 \<le> unat (m_log2Interp x)" by simp
  from pow3_ge_21 [OF this] have "(2::nat) ^ 32 < 3 ^ unat (m_log2Interp x)" .
  moreover have "unat (m_filterChainHash (validateFilterChainHash x)) < 2 ^ 32"
    using unsigned_less [of "m_filterChainHash (validateFilterChainHash x)"] by simp
  ultimately show ?thesis by linarith
qed

text \<open>
  C1: \<open>validateFilterChainHash\<close> is to set the selector to \<open>3 ^ m_log2Interp - 1\<close>
  when it is at least \<open>3 ^ m_log2Interp\<close> and to leave it unchanged otherwise. The
  accumulator \<open>s\<close> is an \<^verbatim>\<open>unsigned int\<close>: at 21 stages it holds
  \<open>3 ^ 21 mod 2 ^ 32 = 1870418611\<close>, and the selector 2000000000, which is below
  \<open>3 ^ 21\<close>, is not left unchanged but replaced by 1870418610, both in a direct call
  and through \<open>webapiUpdateChannelSettings\<close>.
\<close>

theorem validateFilterChainHash_overflow:
  "unat (m_filterChainHash overflowSettings) < 3 ^ unat (m_log2Interp overflowSettings)
   \<and> m_filterChainHash (validateFilterChainHash overflowSettings) = 1870418610
   \<and> m_filterChainHash (webapiUpdateChannelSettings exampleSettings
         [''log2Interp'', ''filterChainHash''] overflowResponse) = 1870418610"
  by (simp add: overflowSettings_def overflowResponse_def exampleSettings_def
      webapiUpdateChannelSettings_def contains_def validateFilterChainHash_def Let_def
      pow3_loop.simps)

section \<open>Properties of the half-band offset\<close>

lemma stageShift_abs: "\<bar>stageShift d\<bar> \<le> 1 / 4"
  by (simp add: stageShift_def)

lemma cascadeShift_abs: "\<bar>cascadeShift ds\<bar> \<le> 1 / 2 - (1 / 2) ^ (length ds + 1)"
proof (induction ds)
  case Nil
  show ?case by simp
next
  case (Cons d ds)
  define p :: real where "p = (1 / 2) ^ (length ds + 1)"
  have ih: "\<bar>cascadeShift ds\<bar> \<le> 1 / 2 - p" using Cons.IH by (simp add: p_def)
  have "\<bar>cascadeShift (d # ds)\<bar> \<le> \<bar>stageShift d\<bar> + \<bar>cascadeShift ds\<bar> / 2"
    by simp
  also have "\<dots> \<le> 1 / 4 + (1 / 2 - p) / 2"
    by (rule add_mono [OF stageShift_abs divide_right_mono [OF ih]]) simp
  also have "\<dots> = 1 / 2 - (1 / 2) ^ (length (d # ds) + 1)"
    by (simp add: p_def field_simps)
  finally show ?case .
qed

text \<open>
  The bound holds for every list of stage digits, so it does not depend on the order
  in which the digits of the selector are assigned to the stages.
\<close>

lemma cascadeShift_range: "- (1 / 2) < cascadeShift ds \<and> cascadeShift ds < 1 / 2"
proof -
  have "(0::real) < (1 / 2) ^ (length ds + 1)" by simp
  with cascadeShift_abs [of ds] show ?thesis by linarith
qed

lemma cascadeShift_half: "\<bar>cascadeShift ds\<bar> \<le> 1 / 2"
  using cascadeShift_range [of ds] by linarith

lemma getShiftFactor_example: "getShiftFactor 2 5 = - 1 / 8"
  by (simp add: getShiftFactor_def stageShift_def numeral_2_eq_2)

text \<open>The nine selector codes of a chain of two stages.\<close>

lemma getShiftFactor_two_stages:
  "map (getShiftFactor 2) [0, 1, 2, 3, 4, 5, 6, 7, 8]
     = [0, 1 / 4, - 1 / 4, 1 / 8, 3 / 8, - 1 / 8, - 1 / 8, 1 / 8, - 3 / 8]"
  by (simp add: getShiftFactor_def stageShift_def numeral_2_eq_2)

text \<open>
  C5: for every stage count and every selector code below \<open>3 ^ stageCount\<close>, the
  shift factor of the offset calculator lies in the interval from \<open>- 0.5\<close> (included)
  to \<open>0.5\<close> (excluded), and \<open>calculateFrequencyOffset\<close> assigns to
  \<open>m_frequencyOffset\<close> the baseband sample rate multiplied by the factor of the stored
  stage count and selector, a single product, whatever the two conversions of the
  assignment are; when the stored selector is below \<open>3 ^ m_log2Interp\<close>, that product is
  at most half the rate in absolute value.
\<close>

theorem getShiftFactor_range:
  assumes "selectorCode < 3 ^ stageCount"
  shows "- (1 / 2) \<le> getShiftFactor stageCount selectorCode
    \<and> getShiftFactor stageCount selectorCode < 1 / 2
    \<and> m_frequencyOffset (calculateFrequencyOffset rateValue toOffset st) =
        toOffset (rateValue (m_basebandSampleRate st)
          * getShiftFactor (unat (m_log2Interp (m_settings st)))
              (unat (m_filterChainHash (m_settings st))))
    \<and> (unat (m_filterChainHash (m_settings st)) < 3 ^ unat (m_log2Interp (m_settings st))
         \<longrightarrow> \<bar>rateValue (m_basebandSampleRate st)
               * getShiftFactor (unat (m_log2Interp (m_settings st)))
                   (unat (m_filterChainHash (m_settings st)))\<bar>
             \<le> \<bar>rateValue (m_basebandSampleRate st)\<bar> / 2)"
proof -
  let ?f = "getShiftFactor (unat (m_log2Interp (m_settings st)))
              (unat (m_filterChainHash (m_settings st)))"
  have "\<bar>?f\<bar> \<le> 1 / 2"
    unfolding getShiftFactor_def by (rule cascadeShift_half)
  then have "\<bar>rateValue (m_basebandSampleRate st)\<bar> * \<bar>?f\<bar>
      \<le> \<bar>rateValue (m_basebandSampleRate st)\<bar> * (1 / 2)"
    by (intro mult_left_mono) simp_all
  then have "\<bar>rateValue (m_basebandSampleRate st) * ?f\<bar>
      \<le> \<bar>rateValue (m_basebandSampleRate st)\<bar> / 2"
    by (simp add: abs_mult)
  then show ?thesis
    using cascadeShift_range [of "base3_digits stageCount selectorCode"]
    by (simp add: getShiftFactor_def calculateFrequencyOffset_def Let_def)
qed

theorem getShiftFactor_range_witness:
  "(5::nat) < 3 ^ 2
   \<and> - (1 / 2) \<le> getShiftFactor 2 5 \<and> getShiftFactor 2 5 < 1 / 2
   \<and> m_frequencyOffset (calculateFrequencyOffset exampleRateValue exampleToOffset
         (exampleSource\<lparr>m_basebandSampleRate := 48001\<rparr>)) = - 6000"
proof -
  have h: "(5::nat) < 3 ^ 2" by simp
  from getShiftFactor_range [OF h, of exampleRateValue exampleToOffset
      "exampleSource\<lparr>m_basebandSampleRate := 48001\<rparr>"]
  show ?thesis
    by (simp add: exampleSource_def exampleSettings_def getShiftFactor_example
        exampleRateValue_def exampleToOffset_def)
qed

section \<open>Properties of the message handler\<close>

text \<open>
  C2: for every message whose concrete kind is none of the six kinds that
  \<open>handleMessage\<close> recognizes (\<open>DSPSignalNotification\<close>, \<open>MsgConfigureFileSource\<close>,
  \<open>MsgConfigureFileSourceName\<close>, \<open>MsgConfigureFileSourceWork\<close>,
  \<open>MsgConfigureFileSourceSeek\<close>, \<open>MsgConfigureFileSourceStreamTiming\<close>),
  \<open>handleMessage\<close> returns false and leaves the whole state of the component as it was.
\<close>

theorem handleMessage_unrecognized:
  assumes "\<not> DSPSignalNotification_match cmd"
    and "\<not> MsgConfigureFileSource_match cmd"
    and "\<not> MsgConfigureFileSourceName_match cmd"
    and "\<not> MsgConfigureFileSourceWork_match cmd"
    and "\<not> MsgConfigureFileSourceSeek_match cmd"
    and "\<not> MsgConfigureFileSourceStreamTiming_match cmd"
  shows "handleMessage powerFromdB rateValue toOffset st cmd = (False, st)"
  using assms by (simp add: handleMessage_def)

theorem handleMessage_unrecognized_witness:
  "handleMessage (\<lambda>g. 1) exampleRateValue exampleToOffset exampleSource
     (MsgSampleRateNotification 48000) = (False, exampleSource)"
  by (rule handleMessage_unrecognized)
    (simp_all add: DSPSignalNotification_match_def MsgConfigureFileSource_match_def
      MsgConfigureFileSourceName_match_def MsgConfigureFileSourceWork_match_def
      MsgConfigureFileSourceSeek_match_def MsgConfigureFileSourceStreamTiming_match_def)

text \<open>
  The kinds of the model that the handler does not recognize: the notifications and
  reports that the channel itself sends, the messages meant for the baseband source and
  every other kind.
\<close>

lemma handleMessage_other_kinds:
  "cmd \<in> {MsgSampleRateNotification r, MsgReportFileSourceAcquisition b,
           MsgReportFileSourceStreamTiming c, MsgConfigureFileSourceBaseband s f,
           BasebandMsgConfigureFileSourceName n, BasebandMsgConfigureFileSourceWork w,
           BasebandMsgConfigureFileSourceSeek m, OtherMessage k}
     \<Longrightarrow> handleMessage powerFromdB rateValue toOffset st cmd = (False, st)"
  by (auto simp add: handleMessage_def DSPSignalNotification_match_def
      MsgConfigureFileSource_match_def MsgConfigureFileSourceName_match_def
      MsgConfigureFileSourceWork_match_def MsgConfigureFileSourceSeek_match_def
      MsgConfigureFileSourceStreamTiming_match_def)

text \<open>
  C4: when \<open>handleMessage\<close> receives a \<open>DSPSignalNotification\<close> with sample rate
  \<open>R\<close> and center frequency \<open>F\<close>, the state it returns has \<open>m_basebandSampleRate\<close>
  equal to \<open>R\<close>, the frequency offset that \<open>calculateFrequencyOffset\<close> computes from
  \<open>R\<close> and the current settings (the product of the rate and the shift factor, as the
  assignment converts it), a copy of the notification at the end of the input queue of
  the baseband source and, if a GUI queue is set, a \<open>MsgSampleRateNotification\<close>
  carrying \<open>R\<close> at the end of that queue: the report is produced by the same call that
  changes the state.
\<close>

theorem handleMessage_DSPSignalNotification:
  assumes "handleMessage powerFromdB rateValue toOffset st (DSPSignalNotification R F)
             = (handled, st')"
  shows "handled
    \<and> m_basebandSampleRate st' = R
    \<and> m_frequencyOffset st' =
        m_frequencyOffset (calculateFrequencyOffset rateValue toOffset
          (st\<lparr>m_basebandSampleRate := R\<rparr>))
    \<and> m_frequencyOffset st' =
        toOffset (rateValue R * getShiftFactor (unat (m_log2Interp (m_settings st)))
                                  (unat (m_filterChainHash (m_settings st))))
    \<and> m_settings st' = m_settings st
    \<and> inputMessageQueue (m_basebandSource st') =
        inputMessageQueue (m_basebandSource st) @ [DSPSignalNotification R F]
    \<and> m_guiMessageQueue st' =
        (case m_guiMessageQueue st of
           None \<Rightarrow> None
         | Some queue \<Rightarrow> Some (queue @ [MsgSampleRateNotification R]))"
  using assms
  by (auto simp add: handleMessage_def DSPSignalNotification_match_def Let_def
      calculateFrequencyOffset_def pushToBaseband_def push_def split: option.splits)

theorem handleMessage_DSPSignalNotification_witness:
  "handleMessage (\<lambda>g. 1) exampleRateValue exampleToOffset exampleSource
       (DSPSignalNotification 48001 435000000)
     = (True, snd (handleMessage (\<lambda>g. 1) exampleRateValue exampleToOffset exampleSource
                     (DSPSignalNotification 48001 435000000)))
   \<and> m_basebandSampleRate
        (snd (handleMessage (\<lambda>g. 1) exampleRateValue exampleToOffset exampleSource
                (DSPSignalNotification 48001 435000000))) = 48001
   \<and> m_frequencyOffset
        (snd (handleMessage (\<lambda>g. 1) exampleRateValue exampleToOffset exampleSource
                (DSPSignalNotification 48001 435000000))) = - 6000
   \<and> m_guiMessageQueue
        (snd (handleMessage (\<lambda>g. 1) exampleRateValue exampleToOffset exampleSource
                (DSPSignalNotification 48001 435000000)))
       = Some [MsgSampleRateNotification 48001]"
proof -
  obtain handled st' where
    h: "handleMessage (\<lambda>g. 1) exampleRateValue exampleToOffset exampleSource
          (DSPSignalNotification 48001 435000000) = (handled, st')"
    by (cases "handleMessage (\<lambda>g. 1) exampleRateValue exampleToOffset exampleSource
                 (DSPSignalNotification 48001 435000000)")
  from handleMessage_DSPSignalNotification [OF h]
  have "handled \<and> m_basebandSampleRate st' = 48001 \<and> m_frequencyOffset st' = - 6000
    \<and> m_guiMessageQueue st' = Some [MsgSampleRateNotification 48001]"
    by (simp add: exampleSource_def exampleSettings_def getShiftFactor_example
        exampleRateValue_def exampleToOffset_def)
  then show ?thesis by (simp add: h)
qed

section \<open>Properties of applying and restoring settings\<close>

text \<open>
  C3: for every settings snapshot and force flag, after \<open>applySettings\<close> the stored
  configuration \<open>m_settings\<close> is the given snapshot, in every field.
\<close>

theorem applySettings_stores:
  "m_settings (applySettings powerFromdB settings force st) = settings"
  by (simp add: applySettings_def Let_def)

theorem applySettings_stores_witness:
  "m_settings (applySettings (\<lambda>g. 1) (exampleSettings\<lparr>m_gainDB := 3, m_title := ''new''\<rparr>)
     False exampleSource) = exampleSettings\<lparr>m_gainDB := 3, m_title := ''new''\<rparr>"
  by (rule applySettings_stores)

text \<open>
  C6: in \<open>applySettings\<close> the key \<open>loop\<close>, \<open>fileName\<close> or \<open>gainDB\<close> is in the
  reverse API key list if and only if that field of the new settings differs from the
  stored one or the force flag is set, and \<open>m_linearGain\<close> is recomputed from the new
  \<open>gainDB\<close> exactly when \<open>gainDB\<close> is so detected; otherwise it keeps its value.
\<close>

theorem applySettings_change_detection:
  "(''loop'' \<in> set (reverseAPIKeys (m_settings st) settings force)
      \<longleftrightarrow> m_loop (m_settings st) \<noteq> m_loop settings \<or> force)
   \<and> (''fileName'' \<in> set (reverseAPIKeys (m_settings st) settings force)
      \<longleftrightarrow> m_fileName (m_settings st) \<noteq> m_fileName settings \<or> force)
   \<and> (''gainDB'' \<in> set (reverseAPIKeys (m_settings st) settings force)
      \<longleftrightarrow> m_gainDB (m_settings st) \<noteq> m_gainDB settings \<or> force)
   \<and> m_linearGain (applySettings powerFromdB settings force st) =
       (if ''gainDB'' \<in> set (reverseAPIKeys (m_settings st) settings force)
        then powerFromdB (m_gainDB settings) else m_linearGain st)"
  by (simp add: reverseAPIKeys_def applySettings_def Let_def pushToBaseband_def
      webapiReverseSendSettings_def)

theorem applySettings_change_detection_witness:
  "reverseAPIKeys (m_settings exampleSource) (exampleSettings\<lparr>m_gainDB := 3\<rparr>) False = [''gainDB'']
   \<and> m_linearGain (applySettings (\<lambda>g. 2 * real_of_int g) (exampleSettings\<lparr>m_gainDB := 3\<rparr>)
        False exampleSource) = 6"
  using applySettings_change_detection [of exampleSource "exampleSettings\<lparr>m_gainDB := 3\<rparr>" False
      "\<lambda>g. 2 * real_of_int g"]
  by (simp add: reverseAPIKeys_def exampleSource_def exampleSettings_def)

text \<open>
  C9: for every byte array, \<open>deserialize\<close> appends exactly one
  \<open>MsgConfigureFileSource\<close> to the input queue, with the force flag set and carrying the
  settings that are stored when it returns; it returns true if and only if reading the
  data into \<open>m_settings\<close> succeeded; on failure the stored and enqueued settings are
  the ones that \<open>resetToDefaults\<close> yields, not the ones the failed read left behind.
\<close>

theorem deserialize_enqueues:
  assumes "deserialize settingsDeserialize resetToDefaults data st = (ok, st')"
  shows "m_inputMessageQueue st' =
           m_inputMessageQueue st @ [MsgConfigureFileSource (m_settings st') True]
    \<and> ok = fst (settingsDeserialize data (m_settings st))
    \<and> m_settings st' =
        (if ok then snd (settingsDeserialize data (m_settings st))
         else resetToDefaults (snd (settingsDeserialize data (m_settings st))))"
  using assms
  by (auto simp add: deserialize_def Let_def push_def split: prod.splits if_splits)

theorem deserialize_enqueues_witness:
  "deserialize (\<lambda>d s. (False, s\<lparr>m_title := ''partly read''\<rparr>)) (\<lambda>s. exampleSettings) [1, 2, 3]
       (exampleSource\<lparr>m_settings := exampleSettings\<lparr>m_gainDB := 7\<rparr>\<rparr>)
     = (False, exampleSource\<lparr>m_inputMessageQueue := [MsgConfigureFileSource exampleSettings True]\<rparr>)"
proof -
  let ?d = "\<lambda>(d :: 8 word list) s. (False, s\<lparr>m_title := ''partly read''\<rparr>)"
  let ?r = "\<lambda>s :: FileSourceSettings. exampleSettings"
  let ?st = "exampleSource\<lparr>m_settings := exampleSettings\<lparr>m_gainDB := 7\<rparr>\<rparr>"
  obtain ok st' where h: "deserialize ?d ?r [1, 2, 3] ?st = (ok, st')"
    by (cases "deserialize ?d ?r [1, 2, 3] ?st")
  from deserialize_enqueues [OF h] have "\<not> ok" and "m_settings st' = exampleSettings"
    and "m_inputMessageQueue st' = [MsgConfigureFileSource exampleSettings True]"
    by (simp_all add: exampleSource_def)
  moreover have "st' = ?st\<lparr>m_settings := m_settings st', m_inputMessageQueue := m_inputMessageQueue st'\<rparr>"
    using h by (auto simp add: deserialize_def Let_def split: if_splits)
  ultimately show ?thesis using h by (simp add: exampleSource_def)
qed

section \<open>Properties of the channel report\<close>

lemma unat_ucast_rate: "unat (ucast rate :: 64 word) = unat rate" for rate :: "32 word"
proof -
  have "unat rate < 2 ^ 32" using unsigned_less [of rate] by simp
  then have "unat rate < 2 ^ 64" by simp
  then show ?thesis by (simp add: unsigned_ucast_eq take_bit_nat_eq_self)
qed

lemma checked_div_by_zero: "checked_div a 0 = Inl DivisionByZero"
  by (simp add: checked_div_def)

lemma ucast_rate_nonzero: "(ucast rate :: 64 word) \<noteq> 0" if "0 < rate" for rate :: "32 word"
proof
  assume "(ucast rate :: 64 word) = 0"
  then have "unat (ucast rate :: 64 word) = 0" by simp
  then have "unat rate = 0" by (simp only: unat_ucast_rate)
  with that show False by (simp add: word_less_nat_alt)
qed

lemma elapsed_zero: "elapsed count 0 = Inr (0, 0)"
  by (simp add: elapsed_def)

lemma elapsed_positive:
  "elapsed count rate
     = Inr (count div ucast rate, (count mod ucast rate) * 1000 div ucast rate)"
  if "0 < rate"
proof -
  have nz: "(ucast rate :: 64 word) \<noteq> 0" by (rule ucast_rate_nonzero [OF that])
  have "count - count div ucast rate * ucast rate = count mod (ucast rate :: 64 word)"
    by (rule minus_div_mult_eq_mod)
  then show ?thesis
    unfolding elapsed_def Let_def checked_div_def using that nz
    by (simp only: if_True if_False sum.case)
qed

lemma elapsed_no_fault: "elapsed count rate \<noteq> Inl e"
proof (cases "0 < rate")
  case True
  then show ?thesis by (simp add: elapsed_positive)
next
  case False
  then have "rate = 0" by (simp add: word_gt_0)
  then show ?thesis by (simp add: elapsed_zero)
qed

lemma elapsed_msec_unat:
  "unat ((count mod ucast rate) * 1000 div (ucast rate :: 64 word)) < 1000" if "0 < rate"
  for rate :: "32 word"
proof -
  let ?r = "ucast rate :: 64 word"
  have r: "unat ?r = unat rate" by (rule unat_ucast_rate)
  have pos: "0 < unat rate" using that by (simp add: word_less_nat_alt)
  have small: "unat rate < 2 ^ 32" using unsigned_less [of rate] by simp
  have m: "unat (count mod ?r) < unat rate"
    using pos by (simp add: unat_mod_distrib r)
  then have "unat (count mod ?r) * 1000 < 2 ^ 32 * 1000" using small by simp
  then have "unat (count mod ?r) * unat (1000 :: 64 word) < 2 ^ LENGTH(64)" by simp
  then have "unat (count mod ?r * 1000) = unat (count mod ?r) * unat (1000 :: 64 word)"
    by (simp only: unat_mult_lem)
  then have "unat (count mod ?r * 1000 div ?r) = unat (count mod ?r) * 1000 div unat rate"
    by (simp add: unat_div_distrib r)
  also have "\<dots> < 1000"
    using m pos by (simp add: less_mult_imp_div_less mult.commute)
  finally show ?thesis .
qed

lemma sint_below: "sint w = uint w" if "uint w < 2 ^ 63" for w :: "64 word"
proof -
  have nonneg: "(0::int) \<le> uint w" by (rule uint_ge_0)
  have "- (2 ^ 63) \<le> (0::int)" by simp
  then have lower: "- (2 ^ 63) \<le> uint w" using nonneg by (rule order_trans)
  have "signed_take_bit 63 (uint w) = uint w"
    using lower that by (simp only: signed_take_bit_int_eq_self)
  then show ?thesis by (simp add: sint_uint)
qed

lemma sint_small: "0 \<le> sint w \<and> sint w < 1000" if "unat w < 1000" for w :: "64 word"
proof -
  have small: "uint w < 1000" unfolding uint_nat using that by linarith
  have "(1000::int) \<le> 2 ^ 63" by simp
  with small have "uint w < 2 ^ 63" by (rule less_le_trans)
  then have "sint w = uint w" by (rule sint_below)
  with small uint_ge_0 [of w] show ?thesis by simp
qed

lemma elapsed_msec_sint:
  "0 \<le> sint ((count mod ucast rate) * 1000 div (ucast rate :: 64 word))
   \<and> sint ((count mod ucast rate) * 1000 div (ucast rate :: 64 word)) < 1000"
  if "0 < rate" for rate :: "32 word"
  by (rule sint_small [OF elapsed_msec_unat [OF that]])

lemma toString_zero: "toString_HHmmsszzz 0 = ''00:00:00.000''"
  by (simp add: toString_HHmmsszzz_def toString_HHmmss_def two_digits_def three_digits_def digit_def)

lemma report_zero_rate:
  "\<exists>report. webapiFormatChannelReport st = Inr report
      \<and> elapsedTime report = ''00:00:00.000''"
  if "fileSampleRate (m_basebandSource st) = 0"
  using that
  by (simp add: webapiFormatChannelReport_def elapsed_zero toInt_def addSecs_def addMSecs_def
      MSECS_PER_DAY_def toString_zero)

lemma report_no_fault: "webapiFormatChannelReport st \<noteq> Inl e"
  using elapsed_no_fault
    [of "samplesCount (m_basebandSource st)" "fileSampleRate (m_basebandSource st)"]
  by (auto simp add: webapiFormatChannelReport_def Let_def split: sum.splits prod.splits)

lemma elapsed_sec_unat:
  "unat (count div (ucast rate :: 64 word)) = unat count div unat rate" for rate :: "32 word"
  by (simp add: unat_div_distrib unat_ucast_rate)

text \<open>
  Below \<open>2 ^ 63\<close> samples the signed reading of \<open>t_sec\<close> is the quotient itself.
\<close>

lemma elapsed_sec_sint:
  "sint (count div (ucast rate :: 64 word)) = int (unat count div unat rate)"
  if "unat count < 2 ^ 63" for rate :: "32 word"
proof -
  let ?q = "count div (ucast rate :: 64 word)"
  have "unat ?q \<le> unat count" by (simp add: elapsed_sec_unat)
  then have "unat ?q < 2 ^ 63" using that by (rule le_less_trans)
  then have "int (unat ?q) < 2 ^ 63"
    by (metis of_nat_less_iff of_nat_numeral of_nat_power)
  then have "uint ?q < 2 ^ 63" by (simp only: uint_nat)
  then have "sint ?q = uint ?q" by (rule sint_below)
  then show ?thesis by (simp only: uint_nat elapsed_sec_unat)
qed

text \<open>
  From \<open>2 ^ 63\<close> samples on the signed reading of \<open>t_sec\<close> can differ from the
  quotient: the largest count at rate 1 gives \<open>- 1\<close>.
\<close>

lemma elapsed_sec_signed_wrap: "elapsed (- 1) 1 = Inr (- 1, 0) \<and> sint (- 1 :: 64 word) = - 1"
  by (simp add: elapsed_positive)

text \<open>
  C7: the report is computed without dividing by zero, for every state. When the file
  sample rate is zero, \<open>webapiFormatChannelReport\<close> skips the elapsed time computation,
  whose divisions would fault, and the elapsed time of the report is
  \<open>00:00:00.000\<close>; for every positive file sample rate, \<open>t_sec\<close> is the sample count
  divided by the rate (as a 64-bit value, and as a signed number below \<open>2 ^ 63\<close>
  samples) and \<open>t_msec\<close> is at least 0 and below 1000.
\<close>

theorem webapiFormatChannelReport_elapsed:
  "(\<forall>e. webapiFormatChannelReport st \<noteq> Inl e)
   \<and> (\<forall>e. elapsed count rate \<noteq> Inl e)
   \<and> checked_div count (ucast (0 :: 32 word)) = Inl DivisionByZero
   \<and> (fileSampleRate (m_basebandSource st) = 0 \<longrightarrow>
      elapsed (samplesCount (m_basebandSource st)) (fileSampleRate (m_basebandSource st))
        = Inr (0, 0)
      \<and> (\<exists>report. webapiFormatChannelReport st = Inr report
            \<and> elapsedTime report = ''00:00:00.000''))
   \<and> (0 < rate \<longrightarrow>
      (\<exists>t_sec t_msec. elapsed count rate = Inr (t_sec, t_msec)
         \<and> t_sec = count div ucast rate
         \<and> unat t_sec = unat count div unat rate
         \<and> (unat count < 2 ^ 63 \<longrightarrow> sint t_sec = int (unat count div unat rate))
         \<and> 0 \<le> sint t_msec
         \<and> sint t_msec < 1000))"
proof (intro conjI impI allI)
  fix e
  show "webapiFormatChannelReport st \<noteq> Inl e" by (rule report_no_fault)
  show "elapsed count rate \<noteq> Inl e" by (rule elapsed_no_fault)
next
  show "checked_div count (ucast (0 :: 32 word)) = Inl DivisionByZero" by (simp add: checked_div_by_zero)
next
  assume zero: "fileSampleRate (m_basebandSource st) = 0"
  show "elapsed (samplesCount (m_basebandSource st)) (fileSampleRate (m_basebandSource st))
          = Inr (0, 0)"
    by (simp add: zero elapsed_zero)
  show "\<exists>report. webapiFormatChannelReport st = Inr report
          \<and> elapsedTime report = ''00:00:00.000''"
    by (rule report_zero_rate [OF zero])
next
  assume pos: "0 < rate"
  let ?s = "count div (ucast rate :: 64 word)"
  let ?m = "(count mod ucast rate) * 1000 div (ucast rate :: 64 word)"
  have "elapsed count rate = Inr (?s, ?m)" by (rule elapsed_positive [OF pos])
  moreover have "unat ?s = unat count div unat rate" by (rule elapsed_sec_unat)
  moreover have "unat count < 2 ^ 63 \<longrightarrow> sint ?s = int (unat count div unat rate)"
    using elapsed_sec_sint [of count rate] by blast
  moreover have "0 \<le> sint ?m" and "sint ?m < 1000"
    using elapsed_msec_sint [OF pos, of count] by simp_all
  ultimately show "\<exists>t_sec t_msec. elapsed count rate = Inr (t_sec, t_msec)
         \<and> t_sec = count div ucast rate
         \<and> unat t_sec = unat count div unat rate
         \<and> (unat count < 2 ^ 63 \<longrightarrow> sint t_sec = int (unat count div unat rate))
         \<and> 0 \<le> sint t_msec
         \<and> sint t_msec < 1000"
    by blast
qed

theorem webapiFormatChannelReport_elapsed_witness:
  "fileSampleRate (m_basebandSource exampleSource) = 0
   \<and> (\<exists>report. webapiFormatChannelReport exampleSource = Inr report
         \<and> elapsedTime report = ''00:00:00.000'')
   \<and> (0 :: 32 word) < 1000
   \<and> (\<exists>t_msec. elapsed 2500 1000 = Inr (2, t_msec) \<and> sint t_msec < 1000)"
  using webapiFormatChannelReport_elapsed [of exampleSource 2500 1000]
  by (auto simp add: exampleSource_def exampleBaseband_def)

end
